theory Spec2Isabelle
  imports Complex_Main "HOL-Library.Char_ord" "HOL-Library.List_Lexorder" "HOL-Library.Product_Lexorder"
begin

section \<open>The store of the point of sale (database.py, init_database)\<close>

text \<open>
  The tables of \<^verbatim>\<open>init_database\<close> are lists of rows in insertion order. A REAL
  or DECIMAL column and a Python float are exact rationals; a nullable column is an
  option. Row ids of the detail and movement tables and the timestamp columns, which no
  operation below reads, are left out.
\<close>

type_synonym num = rat

record producto =
  prod_id :: nat
  codigo_barras :: "string option"
  nombre :: string
  descripcion :: "string option"
  categoria_id :: "nat option"
  precio_venta :: num
  precio_compra :: "num option"
  precio_venta_usd :: "num option"
  precio_compra_usd :: "num option"
  stock_actual :: num
  stock_minimo :: num
  tasa_camb :: "num option"
  activo :: bool
  vende_al_mayor :: bool
  unidades_por_bulto :: "int option"

record venta =
  venta_id :: nat
  v_cliente_id :: "nat option"
  v_subtotal :: num
  v_impuesto :: num
  v_descuento :: num
  v_total :: num
  v_metodo_pago :: string
  v_notas :: string

record detalle_venta =
  dv_venta_id :: nat
  dv_producto_id :: nat
  dv_cantidad :: num
  dv_precio_unitario :: num
  dv_subtotal :: num

datatype tipo_mov = entrada | salida | ajuste

record movimiento =
  m_producto_id :: nat
  tipo_movimiento :: tipo_mov
  m_cantidad :: num
  cantidad_anterior :: num
  cantidad_nueva :: num
  motivo :: string
  usuario :: string

record compra =
  compra_id :: nat
  proveedor_id :: nat
  documento :: string
  fecha_compra :: string
  c_tasa_cambio :: num
  c_subtotal_ves :: num
  c_total_ves :: num
  c_notas :: string

record detalle_compra =
  dc_compra_id :: nat
  dc_producto_id :: nat
  dc_cantidad :: num
  dc_precio_unitario_usd :: num
  dc_precio_unitario_ves :: num
  dc_subtotal_ves :: num

record pago_documento =
  pago_id :: nat
  pg_venta_id :: nat
  numero_documento :: "string option"
  tipo_pago :: string
  monto_pagado :: num
  moneda_pago :: string
  pg_tasa_cambio :: num
  monto_equivalente_usd :: num
  detalles_pago :: string

text \<open>
  The column \<^verbatim>\<open>configuracion_monedas.valor\<close> is TEXT. The rate is written with
  \<^verbatim>\<open>str(nueva_tasa)\<close> and read back with \<^verbatim>\<open>float(tasa)\<close>; Python prints a
  float so that reading it back gives the same float, so that text is kept as the number
  it denotes (\<open>Numero\<close>). Any other text is \<open>Texto\<close>, on which \<^verbatim>\<open>float\<close> raises.
\<close>

datatype valor = Numero num | Texto string

record db =
  productos :: "producto list"
  ventas :: "venta list"
  detalle_ventas :: "detalle_venta list"
  movimientos_inventario :: "movimiento list"
  configuracion_monedas :: "(string \<times> valor) list"
  compras :: "compra list"
  detalle_compras :: "detalle_compra list"
  pagos_documentos :: "pago_documento list"

text \<open>
  What the source raises or answers with. \<open>TypeError\<close>: subscripting \<^verbatim>\<open>None\<close>.
  \<open>ValueError\<close>: \<^verbatim>\<open>float\<close> of a text that is no number. \<open>IntegrityError\<close>: a
  UNIQUE constraint of sqlite3. \<open>CodigoYaExiste\<close>: the exception
  \<^verbatim>\<open>Exception("El codigo de barras ya existe")\<close> that \<^verbatim>\<open>agregar_producto\<close>
  raises in its place. \<open>ProductoNoEncontrado i\<close>: the exceptions
  \<^verbatim>\<open>Exception(f"Producto id {i} no encontrado")\<close> and
  \<^verbatim>\<open>Exception(f"Producto con id {i} no encontrado")\<close>. \<open>CarritoVacio\<close> and
  \<open>TasaInvalida\<close>: the 400 answers "El carrito esta vacio" and "Tasa invalida" of app.py.
\<close>

datatype error = TypeError | ValueError | IntegrityError | CodigoYaExiste
  | ProductoNoEncontrado nat | CarritoVacio | TasaInvalida

definition db_vacia :: db where
  "db_vacia = \<lparr>productos = [], ventas = [], detalle_ventas = [], movimientos_inventario = [],
     configuracion_monedas = [], compras = [], detalle_compras = [], pagos_documentos = []\<rparr>"

text \<open>\<^verbatim>\<open>cursor.lastrowid\<close> of an AUTOINCREMENT table none of whose rows is ever deleted.\<close>

definition lastrowid :: "nat list \<Rightarrow> nat" where
  "lastrowid ids = Suc (fold max ids 0)"

subsection \<open>Rounding to two decimals\<close>

text \<open>SQLite's \<^verbatim>\<open>ROUND(x, 2)\<close>: halves go away from zero.\<close>

definition sql_round2 :: "num \<Rightarrow> num" where
  "sql_round2 x = (if 0 \<le> x then of_int \<lfloor>x * 100 + 1 / 2\<rfloor> / 100
                   else - (of_int \<lfloor>- x * 100 + 1 / 2\<rfloor> / 100))"

text \<open>Python's \<^verbatim>\<open>round(x, 2)\<close>: halves go to the even neighbour.\<close>

definition py_round2 :: "num \<Rightarrow> num" where
  "py_round2 x =
     (let y = x * 100; f = \<lfloor>y\<rfloor>; d = y - of_int f
      in if d < 1 / 2 then of_int f / 100
         else if 1 / 2 < d then of_int (f + 1) / 100
         else if even f then of_int f / 100 else of_int (f + 1) / 100)"

section \<open>Currency configuration (database.py, lines 554-668)\<close>

text \<open>The rows \<^verbatim>\<open>insert_initial_data\<close> writes when the table is empty.\<close>

definition configuracion_inicial :: "(string \<times> valor) list" where
  "configuracion_inicial =
     [(''tasa_usd_ves'', Numero (73 / 2)),
      (''moneda_principal'', Texto ''VES''),
      (''moneda_secundaria'', Texto ''USD''),
      (''mostrar_ambas_monedas'', Numero 1),
      (''simbolo_ves'', Texto ''Bs.''),
      (''simbolo_usd'', Texto ''$'')]"

definition insert_initial_data :: "db \<Rightarrow> db" where
  "insert_initial_data s =
     (if configuracion_monedas s = []
      then s\<lparr>configuracion_monedas := configuracion_inicial\<rparr> else s)"

definition get_configuracion_moneda :: "db \<Rightarrow> string \<Rightarrow> valor option" where
  "get_configuracion_moneda s n = map_of (configuracion_monedas s) n"

definition actualizar_configuracion_moneda :: "db \<Rightarrow> string \<Rightarrow> valor \<Rightarrow> db" where
  "actualizar_configuracion_moneda s n v =
     s\<lparr>configuracion_monedas :=
        map (\<lambda>(k, w). if k = n then (k, v) else (k, w)) (configuracion_monedas s)\<rparr>"

definition get_tasa_cambio :: "db \<Rightarrow> error + num" where
  "get_tasa_cambio s =
     (case get_configuracion_moneda s ''tasa_usd_ves'' of
        None \<Rightarrow> Inr (73 / 2)
      | Some (Numero r) \<Rightarrow> Inr r
      | Some (Texto t) \<Rightarrow> (if t = [] then Inr (73 / 2) else Inl ValueError))"

text \<open>
  One row of the UPDATE of \<^verbatim>\<open>recalcular_precios_ves\<close>: it is rewritten only
  where both USD prices are present.
\<close>

definition recalcular_fila :: "num \<Rightarrow> producto \<Rightarrow> producto" where
  "recalcular_fila t p =
     (case (precio_venta_usd p, precio_compra_usd p) of
        (Some v, Some c) \<Rightarrow>
          p\<lparr>precio_venta := sql_round2 (v * t),
            precio_compra := Some (sql_round2 (c * t)),
            tasa_camb := Some t\<rparr>
      | _ \<Rightarrow> p)"

definition fila_recalculable :: "producto \<Rightarrow> bool" where
  "fila_recalculable p \<longleftrightarrow> precio_venta_usd p \<noteq> None \<and> precio_compra_usd p \<noteq> None"

text \<open>
  \<^verbatim>\<open>recalcular_precios_ves(nueva_tasa)\<close>: the number of rows updated and the store
  it commits. With no rate given it reads the current one, and an exception of that read
  leaves the store as it is.
\<close>

definition recalcular_precios_ves :: "db \<Rightarrow> num option \<Rightarrow> (error + nat) \<times> db" where
  "recalcular_precios_ves s nueva_tasa =
     (case (case nueva_tasa of None \<Rightarrow> get_tasa_cambio s | Some t \<Rightarrow> Inr t) of
        Inl e \<Rightarrow> (Inl e, s)
      | Inr t \<Rightarrow>
          (Inr (length (filter fila_recalculable (productos s))),
           s\<lparr>productos := map (recalcular_fila t) (productos s)\<rparr>))"

text \<open>
  \<^verbatim>\<open>actualizar_tasa_cambio\<close> commits twice, each helper on a connection of its own:
  first the configuration row, then the prices. The list holds the stores a reader can
  find committed after the call has started, in order.
\<close>

definition actualizar_tasa_cambio_commits :: "db \<Rightarrow> num \<Rightarrow> db list" where
  "actualizar_tasa_cambio_commits s nueva_tasa =
     (let s1 = actualizar_configuracion_moneda s ''tasa_usd_ves'' (Numero nueva_tasa);
          s2 = snd (recalcular_precios_ves s1 (Some nueva_tasa))
      in [s1, s2])"

definition actualizar_tasa_cambio :: "db \<Rightarrow> num \<Rightarrow> db" where
  "actualizar_tasa_cambio s nueva_tasa = last (actualizar_tasa_cambio_commits s nueva_tasa)"

text \<open>The POST of \<^verbatim>\<open>/api/tasa-cambio\<close> (app.py, lines 575-581).\<close>

definition api_tasa_cambio :: "db \<Rightarrow> num \<Rightarrow> (error + unit) \<times> db" where
  "api_tasa_cambio s nueva_tasa =
     (if 0 < nueva_tasa then (Inr (), actualizar_tasa_cambio s nueva_tasa)
      else (Inl TasaInvalida, s))"

section \<open>Strings\<close>

text \<open>Python's \<^verbatim>\<open>str.strip()\<close> on ASCII text, and ASCII case folding.\<close>

definition isspace :: "char \<Rightarrow> bool" where
  "isspace c \<longleftrightarrow> (of_char c :: nat) \<in> {9, 10, 11, 12, 13, 28, 29, 30, 31, 32}"

definition strip :: "string \<Rightarrow> string" where
  "strip t = rev (dropWhile isspace (rev (dropWhile isspace t)))"

definition upper_char :: "char \<Rightarrow> char" where
  "upper_char c = (let n = (of_char c :: nat) in if 97 \<le> n \<and> n \<le> 122 then char_of (n - 32) else c)"

definition upper :: "string \<Rightarrow> string" where
  "upper t = map upper_char t"

text \<open>The decimal digits of an id, as an f-string prints it.\<close>

fun str_nat :: "nat \<Rightarrow> string" where
  "str_nat n = (if n < 10 then [char_of (48 + n)]
                else str_nat (n div 10) @ [char_of (48 + n mod 10)])"

declare str_nat.simps [simp del]

text \<open>
  SQLite's \<^verbatim>\<open>text LIKE pattern\<close>: \<^verbatim>\<open>%\<close> stands for any run of characters,
  \<^verbatim>\<open>_\<close> for any one character, and ASCII letters match without regard to case.
\<close>

fun like :: "string \<Rightarrow> string \<Rightarrow> bool" where
  "like [] t = (t = [])"
| "like (p # ps) [] = (p = CHR ''%'' \<and> like ps [])"
| "like (p # ps) (c # cs) =
     (if p = CHR ''%'' then like ps (c # cs) \<or> like (p # ps) cs
      else (p = CHR ''_'' \<or> upper_char p = upper_char c) \<and> like ps cs)"

text \<open>A NULL column satisfies neither \<^verbatim>\<open>=\<close> nor \<^verbatim>\<open>LIKE\<close>.\<close>

definition col_eq :: "string option \<Rightarrow> string \<Rightarrow> bool" where
  "col_eq col t = (case col of None \<Rightarrow> False | Some c \<Rightarrow> c = t)"

definition col_like :: "string option \<Rightarrow> string \<Rightarrow> bool" where
  "col_like col pat = (case col of None \<Rightarrow> False | Some c \<Rightarrow> like pat c)"

section \<open>Products (database.py, lines 308-330 and 845-940; app.py, lines 128-338)\<close>

text \<open>\<^verbatim>\<open>SELECT stock_actual FROM productos WHERE id = ?\<close> with \<^verbatim>\<open>fetchone()\<close>.\<close>

definition select_stock :: "db \<Rightarrow> nat \<Rightarrow> num option" where
  "select_stock s i = map_option stock_actual (find (\<lambda>p. prod_id p = i) (productos s))"

text \<open>\<^verbatim>\<open>UPDATE productos SET ... WHERE id = ?\<close>.\<close>

definition update_producto :: "nat \<Rightarrow> (producto \<Rightarrow> producto) \<Rightarrow> db \<Rightarrow> db" where
  "update_producto i f s =
     s\<lparr>productos := map (\<lambda>p. if prod_id p = i then f p else p) (productos s)\<rparr>"

text \<open>
  \<^verbatim>\<open>registrar_movimiento_inventario\<close> on the caller's cursor: one INSERT into
  \<^verbatim>\<open>movimientos_inventario\<close>, committed with the caller's transaction.
\<close>

definition registrar_movimiento_inventario ::
  "nat \<Rightarrow> tipo_mov \<Rightarrow> num \<Rightarrow> num \<Rightarrow> num \<Rightarrow> string \<Rightarrow> string \<Rightarrow> db \<Rightarrow> db" where
  "registrar_movimiento_inventario pid tipo cant anterior nueva mot usr s =
     s\<lparr>movimientos_inventario := movimientos_inventario s @
        [\<lparr>m_producto_id = pid, tipo_movimiento = tipo, m_cantidad = cant,
          cantidad_anterior = anterior, cantidad_nueva = nueva, motivo = mot, usuario = usr\<rparr>]\<rparr>"

text \<open>The UNIQUE constraint on \<^verbatim>\<open>codigo_barras\<close>; NULLs never collide.\<close>

definition codigo_en_uso :: "producto list \<Rightarrow> string option \<Rightarrow> bool" where
  "codigo_en_uso ps codigo =
     (case codigo of None \<Rightarrow> False | Some c \<Rightarrow> Some c \<in> set (map codigo_barras ps))"

definition actualizar_stock_producto ::
  "db \<Rightarrow> nat \<Rightarrow> num \<Rightarrow> string \<Rightarrow> string \<Rightarrow> (error + num) \<times> db" where
  "actualizar_stock_producto s pid cantidad_sumar mot usr =
     (case select_stock s pid of
        None \<Rightarrow> (Inl (ProductoNoEncontrado pid), s)
      | Some stock_anterior \<Rightarrow>
          (let stock_nuevo = stock_anterior + cantidad_sumar;
               s1 = update_producto pid (\<lambda>p. p\<lparr>stock_actual := stock_nuevo\<rparr>) s;
               s2 = registrar_movimiento_inventario pid entrada cantidad_sumar
                      stock_anterior stock_nuevo mot usr s1
           in (Inr stock_nuevo, s2)))"

text \<open>
  \<^verbatim>\<open>agregar_producto\<close>: the columns it does not name take their defaults
  (\<^verbatim>\<open>tasa_camb\<close> 36.50, \<^verbatim>\<open>activo\<close> 1, the USD prices NULL).
\<close>

definition agregar_producto ::
  "db \<Rightarrow> string option \<Rightarrow> string \<Rightarrow> string option \<Rightarrow> nat option \<Rightarrow> num \<Rightarrow> num option
     \<Rightarrow> num \<Rightarrow> num \<Rightarrow> (error + nat) \<times> db" where
  "agregar_producto s codigo nom descr cat pventa pcompra stock_inicial stock_min =
     (if codigo_en_uso (productos s) codigo then (Inl CodigoYaExiste, s)
      else
        (let producto_id = lastrowid (map prod_id (productos s));
             s1 = s\<lparr>productos := productos s @
                    [\<lparr>prod_id = producto_id, codigo_barras = codigo, nombre = nom,
                      descripcion = descr, categoria_id = cat, precio_venta = pventa,
                      precio_compra = pcompra, precio_venta_usd = None,
                      precio_compra_usd = None, stock_actual = stock_inicial,
                      stock_minimo = stock_min, tasa_camb = Some (73 / 2), activo = True,
                      vende_al_mayor = False, unidades_por_bulto = None\<rparr>]\<rparr>;
             s2 = (if 0 < stock_inicial
                   then registrar_movimiento_inventario producto_id entrada stock_inicial 0
                          stock_inicial ''Stock inicial'' ''Sistema'' s1
                   else s1)
         in (Inr producto_id, s2)))"

text \<open>
  The JSON body of the product routes, each field after the conversion and the default
  the route applies to it (\<^verbatim>\<open>float(data.get('stock_actual', 0))\<close> and so on).
\<close>

record producto_data =
  d_codigo_barras :: string
  d_nombre :: string
  d_descripcion :: string
  d_categoria_id :: "nat option"
  d_precio_venta_usd :: num
  d_precio_compra_usd :: num
  d_stock_actual :: num
  d_stock_minimo :: num
  d_vende_al_mayor :: bool
  d_unidades_por_bulto :: int

text \<open>\<^verbatim>\<open>x.strip() or None\<close>, \<^verbatim>\<open>float(x) or None\<close>, \<^verbatim>\<open>int(x) if x else None\<close>.\<close>

definition strip_or_None :: "string \<Rightarrow> string option" where
  "strip_or_None t = (if strip t = [] then None else Some (strip t))"

definition float_or_None :: "num \<Rightarrow> num option" where
  "float_or_None x = (if x = 0 then None else Some x)"

definition id_or_None :: "nat option \<Rightarrow> nat option" where
  "id_or_None c = (case c of None \<Rightarrow> None | Some n \<Rightarrow> if n = 0 then None else Some n)"

text \<open>POST \<^verbatim>\<open>/api/producto\<close>. Any exception answers 400 and nothing is committed.\<close>

definition api_crear_producto :: "db \<Rightarrow> producto_data \<Rightarrow> (error + nat) \<times> db" where
  "api_crear_producto s d =
     (case get_tasa_cambio s of
        Inl e \<Rightarrow> (Inl e, s)
      | Inr tasa \<Rightarrow>
          (let precio_venta_ves = py_round2 (d_precio_venta_usd d * tasa);
               pcompra_usd = float_or_None (d_precio_compra_usd d);
               precio_compra_ves = map_option (\<lambda>c. py_round2 (c * tasa)) pcompra_usd;
               codigo = strip_or_None (d_codigo_barras d)
           in if codigo_en_uso (productos s) codigo then (Inl IntegrityError, s)
              else
                (let producto_id = lastrowid (map prod_id (productos s));
                     s1 = s\<lparr>productos := productos s @
                            [\<lparr>prod_id = producto_id, codigo_barras = codigo,
                              nombre = strip (d_nombre d),
                              descripcion = strip_or_None (d_descripcion d),
                              categoria_id = id_or_None (d_categoria_id d),
                              precio_venta = precio_venta_ves,
                              precio_compra = precio_compra_ves,
                              precio_venta_usd = Some (d_precio_venta_usd d),
                              precio_compra_usd = pcompra_usd,
                              stock_actual = d_stock_actual d,
                              stock_minimo = d_stock_minimo d,
                              tasa_camb = Some (73 / 2), activo = True,
                              vende_al_mayor = d_vende_al_mayor d,
                              unidades_por_bulto =
                                (if d_vende_al_mayor d then Some (d_unidades_por_bulto d)
                                 else None)\<rparr>]\<rparr>;
                     stock_inicial = d_stock_actual d;
                     s2 = (if 0 < stock_inicial
                           then registrar_movimiento_inventario producto_id entrada
                                  stock_inicial 0 stock_inicial ''Stock inicial'' ''Sistema'' s1
                           else s1)
                 in (Inr producto_id, s2))))"

text \<open>
  PUT \<^verbatim>\<open>/api/producto/<id>\<close>: one UPDATE whose column list names
  \<^verbatim>\<open>stock_actual\<close>; no movement is written. The UNIQUE constraint is checked
  against the other rows when a row is updated.
\<close>

definition api_producto_put :: "db \<Rightarrow> nat \<Rightarrow> producto_data \<Rightarrow> (error + unit) \<times> db" where
  "api_producto_put s producto_id d =
     (case get_tasa_cambio s of
        Inl e \<Rightarrow> (Inl e, s)
      | Inr tasa \<Rightarrow>
          (let precio_venta_ves = py_round2 (d_precio_venta_usd d * tasa);
               pcompra_usd = float_or_None (d_precio_compra_usd d);
               precio_compra_ves = map_option (\<lambda>c. py_round2 (c * tasa)) pcompra_usd;
               codigo = strip_or_None (d_codigo_barras d)
           in if producto_id \<in> set (map prod_id (productos s)) \<and>
                 codigo_en_uso (filter (\<lambda>p. prod_id p \<noteq> producto_id) (productos s)) codigo
              then (Inl IntegrityError, s)
              else
                (Inr (),
                 update_producto producto_id
                   (\<lambda>p. p\<lparr>codigo_barras := codigo,
                          nombre := strip (d_nombre d),
                          descripcion := strip_or_None (d_descripcion d),
                          categoria_id := id_or_None (d_categoria_id d),
                          precio_venta_usd := Some (d_precio_venta_usd d),
                          precio_venta := precio_venta_ves,
                          precio_compra_usd := pcompra_usd,
                          precio_compra :=
                            (case precio_compra_ves of None \<Rightarrow> None
                             | Some v \<Rightarrow> float_or_None v),
                          stock_actual := d_stock_actual d,
                          stock_minimo := d_stock_minimo d,
                          vende_al_mayor := d_vende_al_mayor d,
                          unidades_por_bulto :=
                            (if d_vende_al_mayor d then Some (d_unidades_por_bulto d)
                             else None)\<rparr>) s)))"

text \<open>DELETE \<^verbatim>\<open>/api/producto/<id>\<close>: the soft delete.\<close>

definition api_producto_delete :: "db \<Rightarrow> nat \<Rightarrow> (error + unit) \<times> db" where
  "api_producto_delete s producto_id =
     (Inr (), update_producto producto_id (\<lambda>p. p\<lparr>activo := False\<rparr>) s)"

text \<open>
  \<^verbatim>\<open>buscar_productos\<close>: the rows of the first query when there are any, else those
  of the second. ORDER BY is a sort on the pair of the CASE rank and the name; rows with
  equal keys stay in table order. The joined category name is not part of the row here.
\<close>

definition orden_exacta :: "string \<Rightarrow> producto \<Rightarrow> nat \<times> string" where
  "orden_exacta t p = (if col_eq (codigo_barras p) t then 1 else 2, nombre p)"

definition orden_general :: "string \<Rightarrow> producto \<Rightarrow> nat \<times> string" where
  "orden_general pat p =
     (if like pat (nombre p) then 1 else if col_like (descripcion p) pat then 2 else 3,
      nombre p)"

definition coincide_codigo :: "string \<Rightarrow> producto \<Rightarrow> bool" where
  "coincide_codigo t p \<longleftrightarrow>
     activo p \<and> (col_eq (codigo_barras p) t \<or> col_like (codigo_barras p) (''%'' @ t @ ''%''))"

definition coincide_general :: "string \<Rightarrow> producto \<Rightarrow> bool" where
  "coincide_general pat p \<longleftrightarrow>
     activo p \<and> (like pat (nombre p) \<or> col_like (descripcion p) pat
                 \<or> col_like (codigo_barras p) pat)"

definition buscar_productos :: "db \<Rightarrow> string \<Rightarrow> producto list" where
  "buscar_productos s termino_busqueda =
     (let termino_limpio = strip termino_busqueda
      in if termino_limpio = [] then []
         else
           (let productos_exactos =
                  sort_key (orden_exacta termino_limpio)
                    (filter (coincide_codigo termino_limpio) (productos s));
                termino_like = ''%'' @ termino_limpio @ ''%''
            in if productos_exactos \<noteq> [] then productos_exactos
               else sort_key (orden_general termino_like)
                      (filter (coincide_general termino_like) (productos s))))"

section \<open>Sales (database.py, lines 1007-1068; app.py, lines 422-463)\<close>

text \<open>
  The class defines \<^verbatim>\<open>crear_venta\<close> twice; the later definition (line 1007) is the
  method the class ends up with, and it is the one modelled.
\<close>

record item_venta =
  producto_id :: nat
  cantidad :: num
  precio_unitario :: num

text \<open>
  The loop over the lines, inside the transaction. \<^verbatim>\<open>cursor.fetchone()[0]\<close> on a
  product id with no row subscripts \<^verbatim>\<open>None\<close>.
\<close>

fun venta_items :: "nat \<Rightarrow> item_venta list \<Rightarrow> db \<Rightarrow> error + db" where
  "venta_items vid [] s = Inr s"
| "venta_items vid (item # resto) s =
     (let s1 = s\<lparr>detalle_ventas := detalle_ventas s @
                 [\<lparr>dv_venta_id = vid, dv_producto_id = producto_id item,
                   dv_cantidad = cantidad item, dv_precio_unitario = precio_unitario item,
                   dv_subtotal = cantidad item * precio_unitario item\<rparr>]\<rparr>
      in case select_stock s1 (producto_id item) of
           None \<Rightarrow> Inl TypeError
         | Some stock_anterior \<Rightarrow>
             (let stock_nuevo = stock_anterior - cantidad item;
                  s2 = update_producto (producto_id item)
                         (\<lambda>p. p\<lparr>stock_actual := stock_nuevo\<rparr>) s1;
                  s3 = s2\<lparr>movimientos_inventario := movimientos_inventario s2 @
                          [\<lparr>m_producto_id = producto_id item, tipo_movimiento = salida,
                            m_cantidad = cantidad item, cantidad_anterior = stock_anterior,
                            cantidad_nueva = stock_nuevo,
                            motivo = ''Venta #'' @ str_nat vid, usuario = ''Sistema''\<rparr>]\<rparr>
              in venta_items vid resto s3))"

text \<open>
  \<^verbatim>\<open>crear_venta\<close>: the result and the store left committed. An exception rolls
  the transaction back, so the committed store is the one before the call.
\<close>

definition crear_venta ::
  "db \<Rightarrow> item_venta list \<Rightarrow> nat option \<Rightarrow> string \<Rightarrow> num \<Rightarrow> num \<Rightarrow> string
     \<Rightarrow> (error + nat) \<times> db" where
  "crear_venta s items_venta cliente metodo descuento impuesto notas =
     (let subtotal = sum_list (map (\<lambda>item. cantidad item * precio_unitario item) items_venta);
          total = subtotal + impuesto - descuento;
          vid = lastrowid (map venta_id (ventas s));
          s1 = s\<lparr>ventas := ventas s @
                 [\<lparr>venta_id = vid, v_cliente_id = cliente, v_subtotal = subtotal,
                   v_impuesto = impuesto, v_descuento = descuento, v_total = total,
                   v_metodo_pago = metodo, v_notas = notas\<rparr>]\<rparr>
      in case venta_items vid items_venta s1 of
           Inl e \<Rightarrow> (Inl e, s)
         | Inr s2 \<Rightarrow> (Inr vid, s2))"

record pago_data =
  pd_numero_documento :: "string option"
  pd_tipo_pago :: string
  pd_monto_pagado :: num
  pd_moneda_pago :: string
  pd_tasa_cambio :: num
  pd_detalles :: string

definition registrar_pago_documento :: "db \<Rightarrow> nat \<Rightarrow> pago_data \<Rightarrow> nat \<times> db" where
  "registrar_pago_documento s vid pg =
     (let equivalente =
            (if upper (pd_moneda_pago pg) = ''USD'' then pd_monto_pagado pg
             else if 0 < pd_tasa_cambio pg then pd_monto_pagado pg / pd_tasa_cambio pg
             else 0);
          pid = lastrowid (map pago_id (pagos_documentos s))
      in (pid,
          s\<lparr>pagos_documentos := pagos_documentos s @
             [\<lparr>pago_id = pid, pg_venta_id = vid,
               numero_documento = pd_numero_documento pg, tipo_pago = pd_tipo_pago pg,
               monto_pagado = pd_monto_pagado pg, moneda_pago = pd_moneda_pago pg,
               pg_tasa_cambio = pd_tasa_cambio pg, monto_equivalente_usd = equivalente,
               detalles_pago = pd_detalles pg\<rparr>]\<rparr>))"

text \<open>The JSON body of POST \<^verbatim>\<open>/api/venta\<close>, after the route's defaults.\<close>

record venta_data =
  items :: "item_venta list"
  vd_cliente_id :: "nat option"
  vd_metodo_pago :: string
  vd_descuento :: num
  vd_impuesto :: num
  vd_notas :: string
  vd_pagos :: "pago_data list"

definition api_crear_venta :: "db \<Rightarrow> venta_data \<Rightarrow> (error + nat) \<times> db" where
  "api_crear_venta s d =
     (if items d = [] then (Inl CarritoVacio, s)
      else
        (case crear_venta s (items d) (vd_cliente_id d) (vd_metodo_pago d) (vd_descuento d)
                (vd_impuesto d) (vd_notas d) of
           (Inl e, s1) \<Rightarrow> (Inl e, s1)
         | (Inr vid, s1) \<Rightarrow>
             (Inr vid, fold (\<lambda>pg t. snd (registrar_pago_documento t vid pg)) (vd_pagos d) s1)))"

section \<open>Purchases (database.py, lines 671-742)\<close>

record item_compra =
  ic_producto_id :: nat
  ic_cantidad :: num
  ic_precio_unitario_usd :: "num option"

text \<open>\<^verbatim>\<open>it.get('precio_unitario_usd', 0.0) or 0.0\<close>.\<close>

definition precio_usd_de :: "item_compra \<Rightarrow> num" where
  "precio_usd_de it = (case ic_precio_unitario_usd it of None \<Rightarrow> 0 | Some x \<Rightarrow> x)"

fun compra_items :: "nat \<Rightarrow> num \<Rightarrow> item_compra list \<Rightarrow> db \<Rightarrow> error + db" where
  "compra_items cid tasa [] s = Inr s"
| "compra_items cid tasa (it # resto) s =
     (let prod = ic_producto_id it;
          cant = ic_cantidad it;
          precio_usd = precio_usd_de it;
          precio_ves = py_round2 (precio_usd * tasa);
          subtotal_item_ves = py_round2 (precio_ves * cant);
          s1 = s\<lparr>detalle_compras := detalle_compras s @
                 [\<lparr>dc_compra_id = cid, dc_producto_id = prod, dc_cantidad = cant,
                   dc_precio_unitario_usd = precio_usd, dc_precio_unitario_ves = precio_ves,
                   dc_subtotal_ves = subtotal_item_ves\<rparr>]\<rparr>;
          s2 = update_producto prod
                 (\<lambda>p. p\<lparr>precio_compra_usd := Some precio_usd,
                        precio_compra := Some precio_ves,
                        tasa_camb := Some tasa\<rparr>) s1
      in case select_stock s2 prod of
           None \<Rightarrow> Inl (ProductoNoEncontrado prod)
         | Some stock_anterior \<Rightarrow>
             (let stock_nuevo = stock_anterior + cant;
                  s3 = update_producto prod (\<lambda>p. p\<lparr>stock_actual := stock_nuevo\<rparr>) s2;
                  s4 = s3\<lparr>movimientos_inventario := movimientos_inventario s3 @
                          [\<lparr>m_producto_id = prod, tipo_movimiento = entrada,
                            m_cantidad = cant, cantidad_anterior = stock_anterior,
                            cantidad_nueva = stock_nuevo,
                            motivo = ''Compra #'' @ str_nat cid, usuario = ''Sistema''\<rparr>]\<rparr>
              in compra_items cid tasa resto s4))"

definition crear_compra ::
  "db \<Rightarrow> nat \<Rightarrow> string \<Rightarrow> string \<Rightarrow> num \<Rightarrow> item_compra list \<Rightarrow> string
     \<Rightarrow> (error + nat) \<times> db" where
  "crear_compra s proveedor doc fecha tasa its notas =
     (let subtotal_ves =
            fold (\<lambda>it acc. acc + py_round2 (py_round2 (precio_usd_de it * tasa) * ic_cantidad it))
              its 0;
          total_ves = subtotal_ves;
          cid = lastrowid (map compra_id (compras s));
          s1 = s\<lparr>compras := compras s @
                 [\<lparr>compra_id = cid, proveedor_id = proveedor, documento = doc,
                   fecha_compra = fecha, c_tasa_cambio = tasa, c_subtotal_ves = subtotal_ves,
                   c_total_ves = total_ves, c_notas = notas\<rparr>]\<rparr>
      in case compra_items cid tasa its s1 of
           Inl e \<Rightarrow> (Inl e, s)
         | Inr s2 \<Rightarrow> (Inr cid, s2))"

section \<open>Runs of the program\<close>

text \<open>
  One step is one committed call of a writing operation above, with any arguments. The
  two helpers of \<^verbatim>\<open>actualizar_tasa_cambio\<close> and the payment registration of the
  sale route commit on their own, so each of them is a step of its own, and calls of
  other requests may come between them. Copying the database file as a whole
  (backup_window.py) works on the file, not through these operations, and is not a step.
\<close>

inductive paso :: "db \<Rightarrow> db \<Rightarrow> bool" where
  p_init: "paso s (insert_initial_data s)"
| p_config: "paso s (actualizar_configuracion_moneda s n v)"
| p_recalcular: "paso s (snd (recalcular_precios_ves s t))"
| p_stock: "paso s (snd (actualizar_stock_producto s pid cant mot usr))"
| p_agregar: "paso s (snd (agregar_producto s codigo nom descr cat pv pc si sm))"
| p_crear_producto: "paso s (snd (api_crear_producto s d))"
| p_put: "paso s (snd (api_producto_put s pid d))"
| p_delete: "paso s (snd (api_producto_delete s pid))"
| p_venta: "paso s (snd (crear_venta s its cliente metodo descuento impuesto notas))"
| p_pago: "paso s (snd (registrar_pago_documento s vid pg))"
| p_compra: "paso s (snd (crear_compra s proveedor doc fecha tasa cits notas))"

text \<open>The stores the program can reach from a new database file.\<close>

inductive alcanzable :: "db \<Rightarrow> bool" where
  a_inicio: "alcanzable (insert_initial_data db_vacia)"
| a_paso: "alcanzable s \<Longrightarrow> paso s s' \<Longrightarrow> alcanzable s'"

section \<open>Example stores\<close>

text \<open>
  A new database with one product created through POST \<^verbatim>\<open>/api/producto\<close> at the
  initial rate 36.50: 10.00 USD to sell, 5 units in stock, and no purchase cost
  (\<open>ej_db\<close>) or a purchase cost of 8.00 USD (\<open>ej_db2\<close>).
\<close>

definition ej_data :: producto_data where
  "ej_data = \<lparr>d_codigo_barras = ''123'', d_nombre = ''P'', d_descripcion = '''',
     d_categoria_id = None, d_precio_venta_usd = 10, d_precio_compra_usd = 0,
     d_stock_actual = 5, d_stock_minimo = 0, d_vende_al_mayor = False,
     d_unidades_por_bulto = 1\<rparr>"

definition ej_db :: db where
  "ej_db = snd (api_crear_producto (insert_initial_data db_vacia) ej_data)"

definition ej_db2 :: db where
  "ej_db2 = snd (api_crear_producto (insert_initial_data db_vacia)
                  (ej_data\<lparr>d_precio_compra_usd := 8\<rparr>))"


section \<open>Notions and examples used in the statements\<close>

text \<open>\<^verbatim>\<open>SELECT * FROM productos WHERE id = ?\<close> with \<^verbatim>\<open>fetchone()\<close>.\<close>

definition select_producto :: "db \<Rightarrow> nat \<Rightarrow> producto option" where
  "select_producto s i = find (\<lambda>p. prod_id p = i) (productos s)"



definition tiene_tasa :: "db \<Rightarrow> bool" where
  "tiene_tasa s \<longleftrightarrow> ''tasa_usd_ves'' \<in> set (map fst (configuracion_monedas s))"



text \<open>The quantity a list of sale lines takes from one product.\<close>

definition vendido :: "item_venta list \<Rightarrow> nat \<Rightarrow> num" where
  "vendido its pid = sum_list (map cantidad (filter (\<lambda>it. producto_id it = pid) its))"

text \<open>A cart whose second line names product 99, which does not exist in \<open>ej_db\<close>.\<close>

definition ej_items_inexistente :: "item_venta list" where
  "ej_items_inexistente = [\<lparr>producto_id = 1, cantidad = 2, precio_unitario = 400\<rparr>,
                           \<lparr>producto_id = 99, cantidad = 1, precio_unitario = 400\<rparr>]"

definition ej_venta_data :: "item_venta list \<Rightarrow> venta_data" where
  "ej_venta_data its = \<lparr>items = its, vd_cliente_id = None, vd_metodo_pago = ''efectivo'',
     vd_descuento = 0, vd_impuesto = 0, vd_notas = '''', vd_pagos = []\<rparr>"

text \<open>\<open>ej_db\<close> with a second product whose code 1234 contains the code 123 of the first.\<close>

definition ej_db3 :: db where
  "ej_db3 = snd (api_crear_producto ej_db
                  (ej_data\<lparr>d_codigo_barras := ''1234'', d_nombre := ''Q''\<rparr>))"



text \<open>What one purchase line does to a product row: nothing unless it names the row.\<close>

definition linea_compra :: "num \<Rightarrow> item_compra \<Rightarrow> producto \<Rightarrow> producto" where
  "linea_compra tasa it p =
     (if ic_producto_id it = prod_id p
      then p\<lparr>precio_compra_usd := Some (precio_usd_de it),
             precio_compra := Some (py_round2 (precio_usd_de it * tasa)),
             tasa_camb := Some tasa,
             stock_actual := stock_actual p + ic_cantidad it\<rparr>
      else p)"



section \<open>Rows of the product table and frames of the loops\<close>

lemma select_stock_producto: "select_stock s i = map_option stock_actual (select_producto s i)"
  by (simp add: select_stock_def select_producto_def)

lemma find_map_same:
  "(\<And>x. P (g x) = P x) \<Longrightarrow> find P (map g xs) = map_option g (find P xs)"
  by (induction xs) auto

lemma find_Some_holds: "find P xs = Some x \<Longrightarrow> P x"
  by (induction xs) (auto split: if_splits)

lemma select_producto_update:
  assumes "\<And>p. prod_id (f p) = prod_id p"
  shows "select_producto (update_producto i f s) j =
           (if j = i then map_option f (select_producto s j) else select_producto s j)"
proof -
  let ?g = "\<lambda>p. if prod_id p = i then f p else p"
  have "find (\<lambda>p. prod_id p = j) (map ?g (productos s)) =
          map_option ?g (find (\<lambda>p. prod_id p = j) (productos s))"
    by (rule find_map_same) (simp add: assms)
  moreover have "map_option ?g (find (\<lambda>p. prod_id p = j) (productos s)) =
      (if j = i then map_option f (find (\<lambda>p. prod_id p = j) (productos s))
       else find (\<lambda>p. prod_id p = j) (productos s))"
    by (cases "find (\<lambda>p. prod_id p = j) (productos s)") (auto dest: find_Some_holds)
  ultimately show ?thesis
    by (simp add: select_producto_def update_producto_def)
qed

lemma update_producto_otros [simp]:
  "ventas (update_producto i f s) = ventas s"
  "detalle_ventas (update_producto i f s) = detalle_ventas s"
  "movimientos_inventario (update_producto i f s) = movimientos_inventario s"
  "configuracion_monedas (update_producto i f s) = configuracion_monedas s"
  "compras (update_producto i f s) = compras s"
  "detalle_compras (update_producto i f s) = detalle_compras s"
  "pagos_documentos (update_producto i f s) = pagos_documentos s"
  by (simp_all add: update_producto_def)

lemma select_producto_otros [simp]:
  "select_producto (s\<lparr>detalle_ventas := x\<rparr>) = select_producto s"
  "select_producto (s\<lparr>movimientos_inventario := y\<rparr>) = select_producto s"
  "select_producto (s\<lparr>detalle_compras := z\<rparr>) = select_producto s"
  "select_producto (s\<lparr>ventas := v\<rparr>) = select_producto s"
  "select_producto (s\<lparr>compras := c\<rparr>) = select_producto s"
  by (simp_all add: select_producto_def fun_eq_iff)


lemma venta_items_config:
  "venta_items vid its s = Inr s' \<Longrightarrow> configuracion_monedas s' = configuracion_monedas s"
  by (induction its arbitrary: s) (auto simp: Let_def split: option.splits)


lemma compra_items_config:
  "compra_items cid tasa its s = Inr s' \<Longrightarrow> configuracion_monedas s' = configuracion_monedas s"
  by (induction its arbitrary: s) (auto simp: Let_def split: option.splits)

section \<open>The movement table\<close>














section \<open>The exchange rate and the derived prices\<close>





section \<open>Sales\<close>

text \<open>
  Called directly with no lines, \<^verbatim>\<open>crear_venta\<close> itself checks nothing and commits a
  sale header with subtotal 0; the check on the cart is the route's.
\<close>

lemma crear_venta_lista_vacia:
  "crear_venta s [] cl me de im no =
     (Inr (lastrowid (map venta_id (ventas s))),
      s\<lparr>ventas := ventas s @
         [\<lparr>venta_id = lastrowid (map venta_id (ventas s)), v_cliente_id = cl, v_subtotal = 0,
           v_impuesto = im, v_descuento = de, v_total = 0 + im - de,
           v_metodo_pago = me, v_notas = no\<rparr>]\<rparr>)"
  by (simp add: crear_venta_def Let_def)



lemma select_producto_None: "select_producto s i = None \<longleftrightarrow> i \<notin> set (map prod_id (productos s))"
  by (auto simp: select_producto_def find_None_iff)

lemma venta_items_stock:
  assumes "\<forall>it \<in> set its. select_producto s (producto_id it) \<noteq> None"
  shows "\<exists>s'. venta_items vid its s = Inr s' \<and>
           (\<forall>pid. select_producto s' pid =
              map_option (\<lambda>p. p\<lparr>stock_actual := stock_actual p - vendido its pid\<rparr>)
                (select_producto s pid))"
  using assms
proof (induction its arbitrary: s)
  case Nil
  show ?case by (simp add: vendido_def option.map_ident)
next
  case (Cons item resto)
  let ?i = "producto_id item"
  from Cons.prems obtain p0 where p0: "select_producto s ?i = Some p0" by auto
  let ?s1 = "s\<lparr>detalle_ventas := detalle_ventas s @
                 [\<lparr>dv_venta_id = vid, dv_producto_id = producto_id item,
                   dv_cantidad = cantidad item, dv_precio_unitario = precio_unitario item,
                   dv_subtotal = cantidad item * precio_unitario item\<rparr>]\<rparr>"
  let ?n = "stock_actual p0 - cantidad item"
  let ?s2 = "update_producto ?i (\<lambda>p. p\<lparr>stock_actual := ?n\<rparr>) ?s1"
  let ?s3 = "?s2\<lparr>movimientos_inventario := movimientos_inventario ?s2 @
                          [\<lparr>m_producto_id = producto_id item, tipo_movimiento = salida,
                            m_cantidad = cantidad item, cantidad_anterior = stock_actual p0,
                            cantidad_nueva = ?n,
                            motivo = ''Venta #'' @ str_nat vid, usuario = ''Sistema''\<rparr>]\<rparr>"
  have st: "select_stock ?s1 ?i = Some (stock_actual p0)"
    using p0 by (simp add: select_stock_producto)
  have step: "venta_items vid (item # resto) s = venta_items vid resto ?s3"
    using st by (simp add: Let_def)
  have sel3: "select_producto ?s3 j =
      (if j = ?i then map_option (\<lambda>p. p\<lparr>stock_actual := ?n\<rparr>) (select_producto s j)
       else select_producto s j)" for j
    by (simp add: select_producto_update)
  have "\<forall>it \<in> set resto. select_producto ?s3 (producto_id it) \<noteq> None"
    using Cons.prems by (auto simp: select_producto_update)
  from Cons.IH [OF this] obtain s' where
    r: "venta_items vid resto ?s3 = Inr s'"
    and q: "\<And>pid. select_producto s' pid =
              map_option (\<lambda>p. p\<lparr>stock_actual := stock_actual p - vendido resto pid\<rparr>)
                (select_producto ?s3 pid)"
    by blast
  have "select_producto s' pid =
              map_option (\<lambda>p. p\<lparr>stock_actual := stock_actual p - vendido (item # resto) pid\<rparr>)
                (select_producto s pid)" for pid
  proof (cases "pid = ?i")
    case True
    with p0 q [of pid] sel3 [of pid] show ?thesis
      by (simp add: vendido_def algebra_simps)
  next
    case False
    with q [of pid] sel3 [of pid] show ?thesis
      by (simp add: vendido_def)
  qed
  with step r show ?case by simp
qed

lemma venta_items_inexistente:
  assumes "\<exists>it \<in> set its. select_producto s (producto_id it) = None"
  shows "venta_items vid its s = Inl TypeError"
  using assms
proof (induction its arbitrary: s)
  case Nil
  then show ?case by simp
next
  case (Cons item resto)
  let ?i = "producto_id item"
  show ?case
  proof (cases "select_producto s ?i")
    case None
    then show ?thesis by (simp add: Let_def select_stock_producto)
  next
    case (Some p0)
    let ?s1 = "s\<lparr>detalle_ventas := detalle_ventas s @
                 [\<lparr>dv_venta_id = vid, dv_producto_id = producto_id item,
                   dv_cantidad = cantidad item, dv_precio_unitario = precio_unitario item,
                   dv_subtotal = cantidad item * precio_unitario item\<rparr>]\<rparr>"
    let ?n = "stock_actual p0 - cantidad item"
    let ?s2 = "update_producto ?i (\<lambda>p. p\<lparr>stock_actual := ?n\<rparr>) ?s1"
    let ?s3 = "?s2\<lparr>movimientos_inventario := movimientos_inventario ?s2 @
                          [\<lparr>m_producto_id = producto_id item, tipo_movimiento = salida,
                            m_cantidad = cantidad item, cantidad_anterior = stock_actual p0,
                            cantidad_nueva = ?n,
                            motivo = ''Venta #'' @ str_nat vid, usuario = ''Sistema''\<rparr>]\<rparr>"
    have step: "venta_items vid (item # resto) s = venta_items vid resto ?s3"
      using Some by (simp add: Let_def select_stock_producto)
    from Cons.prems Some obtain it where "it \<in> set resto" "select_producto s (producto_id it) = None"
      by auto
    then have "\<exists>it \<in> set resto. select_producto ?s3 (producto_id it) = None"
      by (auto simp: select_producto_update intro!: bexI [of _ it])
    from Cons.IH [OF this] step show ?thesis by simp
  qed
qed

lemma crear_venta_inexistente:
  assumes "\<exists>it \<in> set its. producto_id it \<notin> set (map prod_id (productos s))"
  shows "crear_venta s its cl me de im no = (Inl TypeError, s)"
proof -
  let ?vid = "lastrowid (map venta_id (ventas s))"
  let ?s1 = "s\<lparr>ventas := ventas s @
                 [\<lparr>venta_id = ?vid, v_cliente_id = cl,
                   v_subtotal = sum_list (map (\<lambda>item. cantidad item * precio_unitario item) its),
                   v_impuesto = im, v_descuento = de,
                   v_total = sum_list (map (\<lambda>item. cantidad item * precio_unitario item) its) + im - de,
                   v_metodo_pago = me, v_notas = no\<rparr>]\<rparr>"
  from assms have "\<exists>it \<in> set its. select_producto ?s1 (producto_id it) = None"
    by (simp add: select_producto_None)
  then have "venta_items ?vid its ?s1 = Inl TypeError"
    by (rule venta_items_inexistente)
  then show ?thesis by (simp add: crear_venta_def Let_def)
qed

lemma crear_venta_stock:
  assumes "\<forall>it \<in> set its. producto_id it \<in> set (map prod_id (productos s))"
  shows "\<exists>s'. crear_venta s its cl me de im no = (Inr (lastrowid (map venta_id (ventas s))), s') \<and>
           (\<forall>pid. select_producto s' pid =
              map_option (\<lambda>p. p\<lparr>stock_actual := stock_actual p - vendido its pid\<rparr>)
                (select_producto s pid))"
proof -
  let ?vid = "lastrowid (map venta_id (ventas s))"
  let ?s1 = "s\<lparr>ventas := ventas s @
                 [\<lparr>venta_id = ?vid, v_cliente_id = cl,
                   v_subtotal = sum_list (map (\<lambda>item. cantidad item * precio_unitario item) its),
                   v_impuesto = im, v_descuento = de,
                   v_total = sum_list (map (\<lambda>item. cantidad item * precio_unitario item) its) + im - de,
                   v_metodo_pago = me, v_notas = no\<rparr>]\<rparr>"
  from assms have "\<forall>it \<in> set its. select_producto ?s1 (producto_id it) \<noteq> None"
    by (simp add: select_producto_None)
  from venta_items_stock [OF this, of ?vid] obtain s' where
    "venta_items ?vid its ?s1 = Inr s'"
    "\<And>pid. select_producto s' pid =
              map_option (\<lambda>p. p\<lparr>stock_actual := stock_actual p - vendido its pid\<rparr>)
                (select_producto ?s1 pid)"
    by blast
  then show ?thesis by (simp add: crear_venta_def Let_def)
qed

lemma registrar_pagos_productos:
  "productos (fold (\<lambda>pg t. snd (registrar_pago_documento t vid pg)) pgs s) = productos s"
  by (induction pgs arbitrary: s) (simp_all add: registrar_pago_documento_def Let_def)

text \<open>
  C4. The sale route, called with a non-empty cart all of whose products exist, succeeds
  whatever the stock is: it returns the new sale id, and the stock of every product
  afterwards is its stock before minus the quantities of the lines that name it (for a
  product on one line, minus that line's quantity). Nothing compares the quantity with
  the stock; the witness sells 7 units from a stock of 5 and leaves -2.
\<close>

theorem api_crear_venta_sin_control_de_stock:
  assumes "items d \<noteq> []"
    and "\<forall>it \<in> set (items d). producto_id it \<in> set (map prod_id (productos s))"
  shows "\<exists>s'. api_crear_venta s d = (Inr (lastrowid (map venta_id (ventas s))), s') \<and>
           (\<forall>pid. select_stock s' pid =
              map_option (\<lambda>stock. stock - vendido (items d) pid) (select_stock s pid))"
proof -
  from crear_venta_stock [OF assms(2), of "vd_cliente_id d" "vd_metodo_pago d" "vd_descuento d"
      "vd_impuesto d" "vd_notas d"]
  obtain s1 where c: "crear_venta s (items d) (vd_cliente_id d) (vd_metodo_pago d) (vd_descuento d)
                (vd_impuesto d) (vd_notas d) = (Inr (lastrowid (map venta_id (ventas s))), s1)"
    and q: "\<And>pid. select_producto s1 pid =
              map_option (\<lambda>p. p\<lparr>stock_actual := stock_actual p - vendido (items d) pid\<rparr>)
                (select_producto s pid)"
    by blast
  let ?s2 = "fold (\<lambda>pg t. snd (registrar_pago_documento t (lastrowid (map venta_id (ventas s))) pg))
               (vd_pagos d) s1"
  have a: "api_crear_venta s d = (Inr (lastrowid (map venta_id (ventas s))), ?s2)"
    using assms(1) c by (simp add: api_crear_venta_def)
  have "select_producto ?s2 pid = select_producto s1 pid" for pid
    by (simp add: select_producto_def registrar_pagos_productos)
  with q have "select_stock ?s2 pid =
      map_option (\<lambda>stock. stock - vendido (items d) pid) (select_stock s pid)" for pid
    by (simp add: select_stock_producto option.map_comp comp_def)
  with a show ?thesis by blast
qed

theorem api_crear_venta_sin_control_de_stock_witness:
  "fst (api_crear_venta ej_db
          (ej_venta_data [\<lparr>producto_id = 1, cantidad = 7, precio_unitario = 400\<rparr>])) = Inr 1 \<and>
   select_stock ej_db 1 = Some 5 \<and>
   select_stock (snd (api_crear_venta ej_db
          (ej_venta_data [\<lparr>producto_id = 1, cantidad = 7, precio_unitario = 400\<rparr>]))) 1 = Some (- 2)"
proof -
  let ?d = "ej_venta_data [\<lparr>producto_id = 1, cantidad = 7, precio_unitario = 400\<rparr>]"
  have h1: "items ?d \<noteq> []" by (simp add: ej_venta_data_def)
  have h2: "\<forall>it \<in> set (items ?d). producto_id it \<in> set (map prod_id (productos ej_db))"
    by code_simp
  have v: "vendido (items ?d) 1 = 7" by code_simp
  have i: "lastrowid (map venta_id (ventas ej_db)) = 1" by code_simp
  have s: "select_stock ej_db 1 = Some 5" by code_simp
  from api_crear_venta_sin_control_de_stock [OF h1 h2] v i s show ?thesis by auto
qed

text \<open>
  C3 on the code. A cart with a line for a product id that has no row makes
  \<^verbatim>\<open>cursor.fetchone()[0]\<close> subscript \<^verbatim>\<open>None\<close>: the sale fails with a
  TypeError, not with a not-found error such as \<^verbatim>\<open>crear_compra\<close> raises. The
  rollback does what the claim says: the committed store is the store before the call,
  although the first line of the cart had already been processed.
\<close>

theorem crear_venta_producto_inexistente_TypeError:
  "crear_venta ej_db ej_items_inexistente None ''efectivo'' 0 0 '''' = (Inl TypeError, ej_db) \<and>
   api_crear_venta ej_db (ej_venta_data ej_items_inexistente) = (Inl TypeError, ej_db)"
  by code_simp

section \<open>The rate route\<close>

lemma crear_venta_config:
  "configuracion_monedas (snd (crear_venta s its cl me de im no)) = configuracion_monedas s"
proof (cases "crear_venta s its cl me de im no")
  case (Pair r s')
  show ?thesis
  proof (cases r)
    case (Inl e)
    with Pair have "s' = s"
      by (auto simp: crear_venta_def Let_def split: sum.splits)
    with Pair show ?thesis by simp
  next
    case (Inr vid)
    with Pair obtain s1 where "venta_items vid its s1 = Inr s'"
      and "configuracion_monedas s1 = configuracion_monedas s"
      by (auto simp: crear_venta_def Let_def split: sum.splits)
    with venta_items_config [of vid its s1 s'] Pair show ?thesis by simp
  qed
qed

lemma crear_compra_config:
  "configuracion_monedas (snd (crear_compra s pr doc fe ta its no)) = configuracion_monedas s"
proof (cases "crear_compra s pr doc fe ta its no")
  case (Pair r s')
  show ?thesis
  proof (cases r)
    case (Inl e)
    with Pair have "s' = s"
      by (auto simp: crear_compra_def Let_def split: sum.splits)
    with Pair show ?thesis by simp
  next
    case (Inr cid)
    with Pair obtain s1 where "compra_items cid ta its s1 = Inr s'"
      and "configuracion_monedas s1 = configuracion_monedas s"
      by (auto simp: crear_compra_def Let_def split: sum.splits)
    with compra_items_config [of cid ta its s1 s'] Pair show ?thesis by simp
  qed
qed

lemma misma_config:
  "configuracion_monedas (snd (recalcular_precios_ves s t)) = configuracion_monedas s"
  "configuracion_monedas (snd (actualizar_stock_producto s pid c mo us)) = configuracion_monedas s"
  "configuracion_monedas (snd (agregar_producto s co nom de ca pv pc si sm)) = configuracion_monedas s"
  "configuracion_monedas (snd (api_crear_producto s d)) = configuracion_monedas s"
  "configuracion_monedas (snd (api_producto_put s pid d)) = configuracion_monedas s"
  "configuracion_monedas (snd (api_producto_delete s pid)) = configuracion_monedas s"
  "configuracion_monedas (snd (registrar_pago_documento s vid pg)) = configuracion_monedas s"
  by (auto simp: recalcular_precios_ves_def actualizar_stock_producto_def agregar_producto_def
      api_crear_producto_def api_producto_put_def api_producto_delete_def
      registrar_pago_documento_def registrar_movimiento_inventario_def Let_def
      split: sum.splits option.splits)

lemma claves_actualizar_configuracion:
  "map fst (configuracion_monedas (actualizar_configuracion_moneda s n v)) =
   map fst (configuracion_monedas s)"
  by (auto simp: actualizar_configuracion_moneda_def)

lemma tiene_tasa_inicial: "tiene_tasa (insert_initial_data s) \<longleftrightarrow> configuracion_monedas s = [] \<or> tiene_tasa s"
  by (auto simp: tiene_tasa_def insert_initial_data_def configuracion_inicial_def)

lemma paso_tiene_tasa:
  assumes "paso s s'" and "tiene_tasa s"
  shows "tiene_tasa s'"
  using assms
proof cases
  case p_init
  with assms(2) show ?thesis by (simp add: tiene_tasa_inicial)
next
  case (p_config n v)
  with assms(2) show ?thesis by (simp add: tiene_tasa_def claves_actualizar_configuracion)
next
  case (p_venta its cliente metodo descuento impuesto notas)
  with assms(2) show ?thesis by (simp add: tiene_tasa_def crear_venta_config)
next
  case (p_compra proveedor doc fecha tasa cits notas)
  with assms(2) show ?thesis by (simp add: tiene_tasa_def crear_compra_config)
qed (simp_all add: tiene_tasa_def misma_config)

lemma alcanzable_tiene_tasa: "alcanzable s \<Longrightarrow> tiene_tasa s"
proof (induction rule: alcanzable.induct)
  case a_inicio
  show ?case by (simp add: tiene_tasa_inicial db_vacia_def)
next
  case (a_paso s s')
  then show ?case by (blast intro: paso_tiene_tasa)
qed

lemma map_of_actualizada:
  "n \<in> set (map fst xs) \<Longrightarrow>
   map_of (map (\<lambda>(k, w). if k = n then (k, v) else (k, w)) xs) n = Some v"
  by (induction xs) auto

lemma get_tasa_cambio_actualizada:
  assumes "tiene_tasa s"
  shows "get_tasa_cambio (actualizar_configuracion_moneda s ''tasa_usd_ves'' (Numero t) \<lparr>productos := ps\<rparr>) = Inr t"
    and "get_tasa_cambio (actualizar_configuracion_moneda s ''tasa_usd_ves'' (Numero t)) = Inr t"
  using assms
  by (simp_all add: get_tasa_cambio_def get_configuracion_moneda_def tiene_tasa_def
      actualizar_configuracion_moneda_def map_of_actualizada)

lemma recalcular_fila_idem: "recalcular_fila t (recalcular_fila t p) = recalcular_fila t p"
  by (simp add: recalcular_fila_def split: option.splits)

lemma actualizar_tasa_cambio_eq:
  "actualizar_tasa_cambio s t =
     s\<lparr>configuracion_monedas :=
          map (\<lambda>(k, w). if k = ''tasa_usd_ves'' then (k, Numero t) else (k, w))
            (configuracion_monedas s),
       productos := map (recalcular_fila t) (productos s)\<rparr>"
  by (simp add: actualizar_tasa_cambio_def actualizar_tasa_cambio_commits_def
      recalcular_precios_ves_def actualizar_configuracion_moneda_def Let_def)

lemma actualizar_tasa_cambio_idem:
  "actualizar_tasa_cambio (actualizar_tasa_cambio s t) t = actualizar_tasa_cambio s t"
  by (simp add: actualizar_tasa_cambio_eq recalcular_fila_idem comp_def case_prod_beta)

text \<open>
  C10. In any store the program can reach, setting a positive rate \<open>r\<close> through the
  rate route and then setting the rate that \<^verbatim>\<open>get_tasa_cambio\<close> now returns (which
  is \<open>r\<close>) leaves the store exactly as the first call left it; so every derived sell
  and purchase price is the one the first call computed.
\<close>

theorem api_tasa_cambio_idempotente:
  assumes "alcanzable s" and "0 < r"
  shows "\<exists>s1. api_tasa_cambio s r = (Inr (), s1) \<and> get_tasa_cambio s1 = Inr r \<and>
           api_tasa_cambio s1 r = (Inr (), s1)"
proof -
  have "tiene_tasa s" using assms(1) by (rule alcanzable_tiene_tasa)
  then have "get_tasa_cambio (actualizar_tasa_cambio s r) = Inr r"
    by (simp add: actualizar_tasa_cambio_def actualizar_tasa_cambio_commits_def
      recalcular_precios_ves_def Let_def get_tasa_cambio_actualizada)
  with assms(2) show ?thesis
    by (simp add: api_tasa_cambio_def actualizar_tasa_cambio_idem)
qed

theorem api_tasa_cambio_idempotente_witness:
  "get_tasa_cambio (snd (api_tasa_cambio ej_db2 50)) = Inr 50 \<and>
   api_tasa_cambio (snd (api_tasa_cambio ej_db2 50)) 50 = (Inr (), snd (api_tasa_cambio ej_db2 50)) \<and>
   map precio_venta (productos (snd (api_tasa_cambio ej_db2 50))) = [500]"
proof -
  have a: "alcanzable ej_db2"
    unfolding ej_db2_def by (rule a_paso [OF a_inicio p_crear_producto])
  have p: "(0::rat) < 50" by simp
  have v: "map precio_venta (productos (snd (api_tasa_cambio ej_db2 50))) = [500]"
    by code_simp
  from api_tasa_cambio_idempotente [OF a p] v show ?thesis by auto
qed




section \<open>Product update and soft delete\<close>

text \<open>
  C6, as the code has it. Neither the soft delete nor the product update writes a
  movement row, and the soft delete leaves every stock as it was. The update, when it
  succeeds, overwrites the stock of the product with the \<^verbatim>\<open>stock_actual\<close> of its
  body (0 when the body has none) and leaves the stock of every other product alone; when
  it fails, nothing is committed.
\<close>

theorem api_producto_put_delete_stock:
  "movimientos_inventario (snd (api_producto_delete s pid)) = movimientos_inventario s \<and>
   map stock_actual (productos (snd (api_producto_delete s pid))) = map stock_actual (productos s) \<and>
   movimientos_inventario (snd (api_producto_put s pid d)) = movimientos_inventario s \<and>
   (fst (api_producto_put s pid d) = Inr () \<longrightarrow>
      map stock_actual (productos (snd (api_producto_put s pid d))) =
        map (\<lambda>p. if prod_id p = pid then d_stock_actual d else stock_actual p) (productos s)) \<and>
   (fst (api_producto_put s pid d) \<noteq> Inr () \<longrightarrow> snd (api_producto_put s pid d) = s)"
  by (auto simp: api_producto_delete_def api_producto_put_def update_producto_def Let_def
      split: sum.splits)

theorem api_producto_put_delete_stock_witness:
  "map stock_actual (productos (snd (api_producto_delete ej_db 1))) = [5] \<and>
   movimientos_inventario (snd (api_producto_put ej_db 1 (ej_data\<lparr>d_stock_actual := 10\<rparr>))) =
     movimientos_inventario ej_db \<and>
   map stock_actual (productos (snd (api_producto_put ej_db 1 (ej_data\<lparr>d_stock_actual := 10\<rparr>)))) = [10]"
proof -
  have ok: "fst (api_producto_put ej_db 1 (ej_data\<lparr>d_stock_actual := 10\<rparr>)) = Inr ()"
    by code_simp
  have a: "map stock_actual (productos ej_db) = [5]" by code_simp
  have b: "map (\<lambda>p. if prod_id p = 1 then d_stock_actual (ej_data\<lparr>d_stock_actual := 10\<rparr>)
               else stock_actual p) (productos ej_db) = [10]" by code_simp
  from api_producto_put_delete_stock [of ej_db 1 "ej_data\<lparr>d_stock_actual := 10\<rparr>"] ok a b
  show ?thesis by simp
qed

text \<open>
  C6 as stated fails for the update: a PUT whose body carries \<^verbatim>\<open>stock_actual\<close> 10
  turns the stock of the product from 5 into 10.
\<close>

theorem api_producto_put_stock_counterexample:
  "map stock_actual (productos ej_db) = [5] \<and>
   fst (api_producto_put ej_db 1 (ej_data\<lparr>d_stock_actual := 10\<rparr>)) = Inr () \<and>
   map stock_actual (productos (snd (api_producto_put ej_db 1 (ej_data\<lparr>d_stock_actual := 10\<rparr>)))) = [10]"
  by code_simp

section \<open>Product search\<close>

lemma buscar_productos_codigo:
  assumes "strip termino \<noteq> []"
    and "filter (coincide_codigo (strip termino)) (productos s) \<noteq> []"
  shows "buscar_productos s termino =
           sort_key (orden_exacta (strip termino))
             (filter (coincide_codigo (strip termino)) (productos s))"
proof -
  have "sort_key (orden_exacta (strip termino))
             (filter (coincide_codigo (strip termino)) (productos s)) \<noteq> []"
    using assms(2) by (metis length_sort list.size(3) length_0_conv)
  with assms(1) show ?thesis
    by (simp add: buscar_productos_def Let_def)
qed

lemma rango_ordenado:
  assumes "i < j" and "j < length (sort_key (orden_exacta t) xs)"
    and "col_eq (codigo_barras (sort_key (orden_exacta t) xs ! j)) t"
  shows "col_eq (codigo_barras (sort_key (orden_exacta t) xs ! i)) t"
proof -
  let ?r = "sort_key (orden_exacta t) xs"
  have "sorted (map (orden_exacta t) ?r)" by (rule sorted_sort_key)
  with assms(1,2) have "map (orden_exacta t) ?r ! i \<le> map (orden_exacta t) ?r ! j"
    by (simp add: sorted_iff_nth_mono del: length_sort)
  with assms(1,2) have "orden_exacta t (?r ! i) \<le> orden_exacta t (?r ! j)"
    by simp
  then have "fst (orden_exacta t (?r ! i)) \<le> fst (orden_exacta t (?r ! j))"
    by (auto simp: less_eq_prod_def)
  with assms(3) show ?thesis
    by (auto simp: orden_exacta_def split: if_splits)
qed

text \<open>
  C9, as the code has it. When the stripped term is not empty and equals the scan code of
  some active product, \<^verbatim>\<open>buscar_productos\<close> returns exactly the active products
  whose scan code equals the term or matches \<^verbatim>\<open>LIKE '%term%'\<close> (the exact and the
  partial matches on the code, and no match on name or description), and in the result no
  partial match stands before an exact match.
\<close>

theorem buscar_productos_por_codigo:
  assumes "strip termino \<noteq> []"
    and "\<exists>p \<in> set (productos s). activo p \<and> codigo_barras p = Some (strip termino)"
  shows "set (buscar_productos s termino) =
           {p \<in> set (productos s). activo p \<and>
              (col_eq (codigo_barras p) (strip termino) \<or>
               col_like (codigo_barras p) (''%'' @ strip termino @ ''%''))} \<and>
         (\<forall>i j. i < j \<and> j < length (buscar_productos s termino) \<and>
                col_eq (codigo_barras (buscar_productos s termino ! j)) (strip termino) \<longrightarrow>
                col_eq (codigo_barras (buscar_productos s termino ! i)) (strip termino))"
proof -
  let ?t = "strip termino"
  from assms(2) obtain p where "p \<in> set (productos s)" "coincide_codigo ?t p"
    by (auto simp: coincide_codigo_def col_eq_def)
  then have ne: "filter (coincide_codigo ?t) (productos s) \<noteq> []"
    by (auto simp: filter_empty_conv)
  have eq: "buscar_productos s termino =
      sort_key (orden_exacta ?t) (filter (coincide_codigo ?t) (productos s))"
    using assms(1) ne by (rule buscar_productos_codigo)
  have "set (buscar_productos s termino) = {p \<in> set (productos s). coincide_codigo ?t p}"
    by (simp add: eq)
  moreover have "\<forall>i j. i < j \<and> j < length (buscar_productos s termino) \<and>
                col_eq (codigo_barras (buscar_productos s termino ! j)) ?t \<longrightarrow>
                col_eq (codigo_barras (buscar_productos s termino ! i)) ?t"
    unfolding eq using rango_ordenado by blast
  ultimately show ?thesis by (simp add: coincide_codigo_def)
qed

theorem buscar_productos_por_codigo_witness:
  "set (buscar_productos ej_db3 '' 123 '') =
     {p \<in> set (productos ej_db3). activo p \<and>
        (col_eq (codigo_barras p) ''123'' \<or> col_like (codigo_barras p) ''%123%'')}"
proof -
  have h1: "strip '' 123 '' \<noteq> []" by code_simp
  have st: "strip '' 123 '' = ''123''" by code_simp
  have h2: "\<exists>p \<in> set (productos ej_db3). activo p \<and> codigo_barras p = Some (strip '' 123 '')"
    by code_simp
  from buscar_productos_por_codigo [OF h1 h2] show ?thesis by (simp add: st)
qed

text \<open>
  C9 as stated fails: the result is not only the exact matches. Searching 123 in a
  store whose active products have the codes 123 and 1234 returns both products, the
  second of which has a code different from the term.
\<close>

theorem buscar_productos_parcial_counterexample:
  "map codigo_barras (filter activo (productos ej_db3)) = [Some ''123'', Some ''1234''] \<and>
   map codigo_barras (buscar_productos ej_db3 ''123'') = [Some ''123'', Some ''1234'']"
  by code_simp

section \<open>Purchases\<close>

lemma prod_id_linea_compra [simp]: "prod_id (linea_compra tasa it p) = prod_id p"
  by (simp add: linea_compra_def)



lemma prod_id_fold_linea_compra [simp]: "prod_id (fold (linea_compra tasa) its p) = prod_id p"
  by (induction its arbitrary: p) simp_all









end
